theory Spec2Isabelle
  imports Main "HOL-Library.Sublist"
begin

section \<open>Python strings\<close>

text \<open>
  A Python \<open>str\<close> is modelled as a \<open>string\<close>; one \<open>char\<close> stands for one code point
  below 256. \<open>isspace\<close> lists the code points in that range that \<open>str.isspace\<close> accepts,
  which are the ones \<open>str.strip()\<close> removes.
\<close>

definition isspace :: "char \<Rightarrow> bool" where
  "isspace c = (of_char c \<in> {9, 10, 11, 12, 13, 28, 29, 30, 31, 32, 133, 160 :: nat})"

text \<open>\<open>s.strip()\<close>: leading and trailing whitespace removed.\<close>

definition str_strip :: "string \<Rightarrow> string" where
  "str_strip s = rev (dropWhile isspace (rev (dropWhile isspace s)))"

text \<open>
  \<open>s.split(sep)\<close> for a one-character separator: the pieces between the separators,
  empty pieces kept, so that the empty string gives one empty piece. The \<open>[]\<close> branch of
  the \<open>case\<close> is never taken (see \<open>str_split_not_Nil\<close>).
\<close>

fun str_split :: "char \<Rightarrow> string \<Rightarrow> string list" where
  "str_split sep [] = [[]]"
| "str_split sep (c # cs) =
     (if c = sep then [] # str_split sep cs
      else (case str_split sep cs of [] \<Rightarrow> [[c]] | w # ws \<Rightarrow> (c # w) # ws))"

text \<open>\<open>sep.join(xs)\<close>.\<close>

fun str_join :: "string \<Rightarrow> string list \<Rightarrow> string" where
  "str_join sep [] = []"
| "str_join sep [x] = x"
| "str_join sep (x # y # ys) = x @ sep @ str_join sep (y # ys)"

text \<open>
  \<open>shlex.quote\<close>: the empty string becomes two single quotes, a string of safe characters
  (ASCII letters, digits and \<open>_@%+=:,./-\<close>) is left alone, anything else is wrapped in
  single quotes with every single quote inside replaced by \<open>'"'"'\<close>.
\<close>

definition safe_char :: "char \<Rightarrow> bool" where
  "safe_char c =
     (let n = (of_char c :: nat)
      in (48 \<le> n \<and> n \<le> 57) \<or> (65 \<le> n \<and> n \<le> 90) \<or> (97 \<le> n \<and> n \<le> 122)
         \<or> c \<in> set ''_@%+=:,./-'')"

definition shlex_quote :: "string \<Rightarrow> string" where
  "shlex_quote s =
     (if s = [] then [CHR 0x27, CHR 0x27]
      else if list_all safe_char s then s
      else [CHR 0x27]
           @ concat (map (\<lambda>c. if c = CHR 0x27
                                then [CHR 0x27, CHR 0x22, CHR 0x27, CHR 0x22, CHR 0x27]
                                else [c]) s)
           @ [CHR 0x27])"

text \<open>The text \<open>' '.join(shlex.quote(arg) for arg in command)\<close> that every adapter logs.\<close>

definition quoted :: "string list \<Rightarrow> string" where
  "quoted command = str_join '' '' (map shlex_quote command)"

section \<open>Command construction\<close>

text \<open>
  The command each adapter builds inside its \<open>try\<close> block, before the process is
  started. The list comprehensions of the source are written as list comprehensions.
\<close>

definition bandit_command :: "string \<Rightarrow> string \<Rightarrow> string list" where
  "bandit_command path exclude =
     (let exclude_list =
            [''--exclude='' @ str_strip e. e \<leftarrow> str_split CHR '','' exclude, str_strip e \<noteq> []]
      in [''bandit'', ''-r'', path, ''-f'', ''txt''] @ exclude_list)"

definition flake8_command :: "string \<Rightarrow> string \<Rightarrow> string list" where
  "flake8_command path exclude =
     (let command = [''flake8'', path, ''--extend-ignore=E722,B001,B028'',
                     ''--select=E,W,F,C90'', ''--max-complexity=10''];
          exclude_list = [str_strip e. e \<leftarrow> str_split CHR '','' exclude, str_strip e \<noteq> []]
      in if exclude_list \<noteq> [] then command @ [''--exclude'', str_join '','' exclude_list]
         else command)"

definition pylint_command :: "string \<Rightarrow> string \<Rightarrow> string list" where
  "pylint_command path exclude =
     (let command = [''pylint'', path, ''--disable=C0301,W0703,W0702,broad-except''];
          exclude_list = [str_strip e. e \<leftarrow> str_split CHR '','' exclude, str_strip e \<noteq> []]
      in if exclude_list \<noteq> [] then command @ [''--ignore'', str_join '','' exclude_list]
         else command)"

definition pyre_command :: "string \<Rightarrow> string \<Rightarrow> string list" where
  "pyre_command path exclude = [''pyre'', ''analyze'', path]"

section \<open>The environment and the effects of a run\<close>

text \<open>
  What \<open>subprocess.run(command, capture_output=True, text=True, check=True)\<close> can raise.
  With \<open>check=True\<close> a non-zero exit status of the process is the exception
  \<open>CalledProcessError\<close>; it carries \<open>str(e)\<close> and the captured \<open>e.stderr\<close>. An executable
  that is not found is \<open>FileNotFoundError\<close>. \<open>OtherException\<close> stands for any other
  subclass of \<open>Exception\<close>, among them \<open>PermissionError\<close>, which is what an executable
  that is found but cannot be started raises. Both carry \<open>str(e)\<close>.
\<close>

datatype py_exception =
    CalledProcessError string string
  | FileNotFoundError string
  | OtherException string

fun exc_str :: "py_exception \<Rightarrow> string" where
  "exc_str (CalledProcessError m err) = m"
| "exc_str (FileNotFoundError m) = m"
| "exc_str (OtherException m) = m"

text \<open>
  The environment answers the three questions the program asks the operating system:
  whether a path exists, what running a command gives (the captured standard output, or an
  exception), and whether opening a report file for writing and writing a text to it
  succeeds (\<open>None\<close>) or raises \<open>IOError\<close> (\<open>Some\<close> of its text).
\<close>

record env =
  path_exists :: "string \<Rightarrow> bool"
  subprocess_run :: "string list \<Rightarrow> py_exception + string"
  write_file :: "string \<Rightarrow> string \<Rightarrow> string option"

text \<open>
  What a run leaves behind: the log records, the commands handed to \<open>subprocess.run\<close>,
  the files it tried to open for writing, the completed writes to files (path and content,
  the file opened truncating), and the text written to standard output.
\<close>

datatype level = INFO | ERROR

record world =
  logged :: "(level \<times> string) list"
  spawned :: "string list list"
  opened :: "string list"
  written :: "(string \<times> string) list"
  printed :: string

definition world0 :: world where
  "world0 = \<lparr>logged = [], spawned = [], opened = [], written = [], printed = []\<rparr>"

definition log :: "level \<Rightarrow> string \<Rightarrow> world \<Rightarrow> world" where
  "log l msg w = w\<lparr>logged := logged w @ [(l, msg)]\<rparr>"

definition spawn :: "string list \<Rightarrow> world \<Rightarrow> world" where
  "spawn command w = w\<lparr>spawned := spawned w @ [command]\<rparr>"

text \<open>\<open>print(s)\<close> writes \<open>s\<close> and a newline.\<close>

definition print :: "string \<Rightarrow> world \<Rightarrow> world" where
  "print s w = w\<lparr>printed := printed w @ s @ [CHR 0x0A]\<rparr>"

text \<open>The content a file has after the run, if the run wrote it.\<close>

definition file_content :: "world \<Rightarrow> string \<Rightarrow> string option" where
  "file_content w f = map_of (rev (written w)) f"

section \<open>Path validation\<close>

definition check_path :: "env \<Rightarrow> string \<Rightarrow> world \<Rightarrow> bool \<times> world" where
  "check_path ev path w =
     (if \<not> path_exists ev path
      then (False, log ERROR (''Error: Path '' @ [CHR 0x27] @ path @ [CHR 0x27]
                              @ '' does not exist.'') w)
      else (True, w))"

section \<open>Tool adapters\<close>

text \<open>
  Each adapter returns its result text and the world after it. The \<open>except\<close> clauses are
  tried in the order of the source.
\<close>

definition analyze_with_bandit :: "env \<Rightarrow> string \<Rightarrow> string \<Rightarrow> world \<Rightarrow> string \<times> world" where
  "analyze_with_bandit ev path exclude w =
     (let command = bandit_command path exclude;
          w1 = log INFO (''Running Bandit with command: '' @ quoted command) w;
          w2 = spawn command w1
      in case subprocess_run ev command of
           Inr out \<Rightarrow> (out, w2)
         | Inl (CalledProcessError m err) \<Rightarrow>
             (''Bandit analysis failed: '' @ m @ [CHR 0x0A] @ err,
              log ERROR (''Bandit analysis failed: '' @ m) w2)
         | Inl e \<Rightarrow>
             (''Error running Bandit: '' @ exc_str e,
              log ERROR (''Error running Bandit: '' @ exc_str e) w2))"

definition analyze_with_flake8 :: "env \<Rightarrow> string \<Rightarrow> string \<Rightarrow> world \<Rightarrow> string \<times> world" where
  "analyze_with_flake8 ev path exclude w =
     (let command = flake8_command path exclude;
          w1 = log INFO (''Running Flake8 with command: '' @ quoted command) w;
          w2 = spawn command w1
      in case subprocess_run ev command of
           Inr out \<Rightarrow> (out, w2)
         | Inl (CalledProcessError m err) \<Rightarrow>
             (''Flake8 analysis failed: '' @ m @ [CHR 0x0A] @ err,
              log ERROR (''Flake8 analysis failed: '' @ m) w2)
         | Inl e \<Rightarrow>
             (''Error running Flake8: '' @ exc_str e,
              log ERROR (''Error running Flake8: '' @ exc_str e) w2))"

definition analyze_with_pylint :: "env \<Rightarrow> string \<Rightarrow> string \<Rightarrow> world \<Rightarrow> string \<times> world" where
  "analyze_with_pylint ev path exclude w =
     (let command = pylint_command path exclude;
          w1 = log INFO (''Running Pylint with command: '' @ quoted command) w;
          w2 = spawn command w1
      in case subprocess_run ev command of
           Inr out \<Rightarrow> (out, w2)
         | Inl (CalledProcessError m err) \<Rightarrow>
             (''Pylint analysis failed: '' @ m @ [CHR 0x0A] @ err,
              log ERROR (''Pylint analysis failed: '' @ m) w2)
         | Inl e \<Rightarrow>
             (''Error running Pylint: '' @ exc_str e,
              log ERROR (''Error running Pylint: '' @ exc_str e) w2))"

definition analyze_with_pyre :: "env \<Rightarrow> string \<Rightarrow> string \<Rightarrow> world \<Rightarrow> string \<times> world" where
  "analyze_with_pyre ev path exclude w =
     (let command = pyre_command path exclude;
          w1 = log INFO (''Running Pyre with command: '' @ quoted command) w;
          w2 = spawn command w1
      in case subprocess_run ev command of
           Inr out \<Rightarrow> (out, w2)
         | Inl (CalledProcessError m err) \<Rightarrow>
             (''Pyre analysis failed: '' @ m @ [CHR 0x0A] @ err,
              log ERROR (''Pyre analysis failed: '' @ m) w2)
         | Inl (FileNotFoundError m) \<Rightarrow>
             (''Pyre is not installed or not in PATH. Please install Pyre.'',
              log ERROR ''Pyre is not installed or not in PATH. Please install Pyre.'' w2)
         | Inl e \<Rightarrow>
             (''Error running Pyre: '' @ exc_str e,
              log ERROR (''Error running Pyre: '' @ exc_str e) w2))"

section \<open>Argument resolution\<close>

text \<open>
  \<open>setup_argparse\<close> declares one positional argument and three options. How \<open>argparse\<close>
  scans the token list is the library's business; the model starts from what the scan
  found: a malformed command line (usage error, exit status 2), a request for help (exit
  status 0), or the value of \<open>path\<close> and the values of the options that were given.
  \<open>parse_args\<close> then does what the declarations say: \<open>--report_file\<close> defaults to \<open>None\<close>,
  \<open>--exclude\<close> to the empty string, \<open>--tool\<close> to \<open>bandit\<close>, and a given \<open>--tool\<close> outside
  \<open>choices\<close> is a usage error.
\<close>

datatype cli =
    Malformed
  | HelpRequested
  | Supplied string "string option" "string option" "string option"

record namespace =
  path :: string
  report_file :: "string option"
  exclude :: string
  tool :: string

definition tool_choices :: "string list" where
  "tool_choices = [''bandit'', ''flake8'', ''pylint'', ''pyre-check'']"

definition parse_args :: "cli \<Rightarrow> int + namespace" where
  "parse_args cl =
     (case cl of
        Malformed \<Rightarrow> Inl 2
      | HelpRequested \<Rightarrow> Inl 0
      | Supplied p rf ex tv \<Rightarrow>
          (let ns = \<lparr>path = p, report_file = rf,
                     exclude = (case ex of None \<Rightarrow> [] | Some e \<Rightarrow> e),
                     tool = ''bandit''\<rparr>
           in case tv of
                None \<Rightarrow> Inr ns
              | Some t \<Rightarrow> if t \<in> set tool_choices then Inr (ns\<lparr>tool := t\<rparr>) else Inl 2))"

section \<open>The main function\<close>

text \<open>
  The choice of the adapter (the \<open>if\<close>/\<open>elif\<close> chain of \<open>main\<close>); \<open>None\<close> is its final
  \<open>else\<close> branch.
\<close>

definition choose_tool :: "env \<Rightarrow> namespace \<Rightarrow> world \<Rightarrow> (string \<times> world) option" where
  "choose_tool ev args w =
     (if tool args = ''bandit'' then Some (analyze_with_bandit ev (path args) (exclude args) w)
      else if tool args = ''flake8'' then Some (analyze_with_flake8 ev (path args) (exclude args) w)
      else if tool args = ''pylint'' then Some (analyze_with_pylint ev (path args) (exclude args) w)
      else if tool args = ''pyre-check'' then Some (analyze_with_pyre ev (path args) (exclude args) w)
      else None)"

text \<open>\<open>if args.report_file:\<close> holds for a value that is neither \<open>None\<close> nor empty.\<close>

definition truthy :: "string option \<Rightarrow> bool" where
  "truthy v = (case v of None \<Rightarrow> False | Some s \<Rightarrow> s \<noteq> [])"

text \<open>The output of the results (the last block of \<open>main\<close>), with the exit status.\<close>

definition output_results :: "env \<Rightarrow> namespace \<Rightarrow> string \<Rightarrow> world \<Rightarrow> world \<times> int" where
  "output_results ev args analysis_results w =
     (if truthy (report_file args) then
        (let f = the (report_file args);
             w1 = w\<lparr>opened := opened w @ [f]\<rparr>
         in case write_file ev f analysis_results of
              None \<Rightarrow> (log INFO (''Report saved to '' @ f)
                         (w1\<lparr>written := written w1 @ [(f, analysis_results)]\<rparr>), 0)
            | Some e \<Rightarrow> (log ERROR (''Error writing to report file: '' @ e) w1, 1))
      else (print analysis_results w, 0))"

text \<open>
  \<open>main\<close>: the world after the run and the exit status of the process. \<open>sys.exit(1)\<close>
  ends the run with status 1; falling off the end of \<open>main\<close> is status 0.
\<close>

definition main :: "env \<Rightarrow> cli \<Rightarrow> world \<times> int" where
  "main ev cl =
     (case parse_args cl of
        Inl status \<Rightarrow> (world0, status)
      | Inr args \<Rightarrow>
          (case check_path ev (path args) world0 of
             (ok, w1) \<Rightarrow>
               if \<not> ok then (w1, 1)
               else (case choose_tool ev args w1 of
                       None \<Rightarrow> (log ERROR (''Invalid tool specified: '' @ tool args) w1, 1)
                     | Some (analysis_results, w2) \<Rightarrow>
                         output_results ev args analysis_results w2)))"

section \<open>Notions used in the statements\<close>

text \<open>The name an adapter uses for its tool in its messages, by tool selector.\<close>

definition tool_title :: "string \<Rightarrow> string" where
  "tool_title t =
     (if t = ''bandit'' then ''Bandit'' else if t = ''flake8'' then ''Flake8''
      else if t = ''pylint'' then ''Pylint'' else ''Pyre'')"

text \<open>The command of the adapter that \<open>main\<close> chooses for a tool selector.\<close>

definition command_for :: "string \<Rightarrow> string \<Rightarrow> string \<Rightarrow> string list" where
  "command_for t p ex =
     (if t = ''bandit'' then bandit_command p ex else if t = ''flake8'' then flake8_command p ex
      else if t = ''pylint'' then pylint_command p ex else pyre_command p ex)"

text \<open>
  The normalised exclude entries in the words of the specification: the pieces between
  the commas, whitespace trimmed, empty entries dropped.
\<close>

definition exclude_entries :: "string \<Rightarrow> string list" where
  "exclude_entries ex = filter (\<lambda>e. e \<noteq> []) (map str_strip (str_split CHR '','' ex))"

text \<open>Two worlds with the same opened files, written files and standard output.\<close>

definition same_output :: "world \<Rightarrow> world \<Rightarrow> bool" where
  "same_output w w' = (opened w' = opened w \<and> written w' = written w \<and> printed w' = printed w)"

text \<open>
  An environment that gives the same answers whatever it is asked: whether paths exist,
  what running a command gives, and what writing a file gives.
\<close>

definition const_env :: "bool \<Rightarrow> py_exception + string \<Rightarrow> string option \<Rightarrow> env" where
  "const_env ex res wr =
     \<lparr>path_exists = (\<lambda>_. ex), subprocess_run = (\<lambda>_. res), write_file = (\<lambda>_ _. wr)\<rparr>"

section \<open>Splitting, joining and trimming\<close>

lemma str_split_not_Nil: "str_split sep s \<noteq> []"
  by (induction s) (auto split: list.splits)

lemma str_join_split: "str_join [sep] (str_split sep s) = s"
proof (induction s)
  case Nil
  show ?case by simp
next
  case (Cons c cs)
  obtain w ws where ws: "str_split sep cs = w # ws"
    using str_split_not_Nil [of sep cs] by (cases "str_split sep cs") auto
  show ?case
  proof (cases "c = sep")
    case True
    then show ?thesis using Cons.IH ws by simp
  next
    case False
    then show ?thesis using Cons.IH ws by (cases ws) auto
  qed
qed

lemma str_split_no_sep: "w \<in> set (str_split sep s) \<Longrightarrow> sep \<notin> set w"
proof (induction s arbitrary: w)
  case Nil
  then show ?case by simp
next
  case (Cons c cs)
  then show ?case
    by (auto split: if_splits list.splits)
qed

lemma comprehension_map_filter:
  "concat (map (\<lambda>e. if P e then [f e] else []) xs) = map f (filter P xs)"
  by (induction xs) auto

lemma list_all_takeWhile: "list_all P (takeWhile P xs)"
  by (induction xs) auto

lemma rev_drop_take: "rev (dropWhile P (rev xs)) @ rev (takeWhile P (rev xs)) = xs"
proof -
  have "rev (takeWhile P (rev xs) @ dropWhile P (rev xs)) = xs"
    by (simp only: takeWhile_dropWhile_id rev_rev_ident)
  then show ?thesis by (simp only: rev_append)
qed

lemma str_strip_decompose:
  "\<exists>l r. s = l @ str_strip s @ r \<and> list_all isspace l \<and> list_all isspace r"
proof -
  let ?t = "dropWhile isspace s"
  let ?l = "takeWhile isspace s"
  let ?r = "rev (takeWhile isspace (rev ?t))"
  have "?t = str_strip s @ ?r"
    unfolding str_strip_def by (rule rev_drop_take [symmetric])
  then have "?l @ ?t = ?l @ str_strip s @ ?r" by (rule arg_cong)
  then have 1: "s = ?l @ str_strip s @ ?r" by (simp only: takeWhile_dropWhile_id)
  have 2: "list_all isspace ?l" by (rule list_all_takeWhile)
  have "list_all isspace (takeWhile isspace (rev ?t))" by (rule list_all_takeWhile)
  then have 3: "list_all isspace ?r" by (simp only: list_all_rev)
  show ?thesis using 1 2 3 by blast
qed

lemma hd_of_prefix: "t = a @ r \<Longrightarrow> a \<noteq> [] \<Longrightarrow> hd t = hd a \<and> t \<noteq> []"
  by simp

lemma str_strip_hd: "str_strip s \<noteq> [] \<Longrightarrow> \<not> isspace (hd (str_strip s))"
proof -
  assume a: "str_strip s \<noteq> []"
  let ?t = "dropWhile isspace s"
  let ?r = "rev (takeWhile isspace (rev ?t))"
  have eq: "?t = str_strip s @ ?r"
    unfolding str_strip_def by (rule rev_drop_take [symmetric])
  have h1: "hd ?t = hd (str_strip s)" and ne: "?t \<noteq> []"
    using hd_of_prefix [OF eq a] by blast+
  have "\<not> isspace (hd ?t)" using ne by (rule hd_dropWhile)
  then show ?thesis using h1 by simp
qed

lemma str_strip_last: "str_strip s \<noteq> [] \<Longrightarrow> \<not> isspace (last (str_strip s))"
proof -
  assume a: "str_strip s \<noteq> []"
  let ?u = "dropWhile isspace (rev (dropWhile isspace s))"
  have u: "?u \<noteq> []" using a by (simp add: str_strip_def)
  have "last (rev ?u) = hd ?u" using u by (simp add: last_rev)
  moreover have "\<not> isspace (hd ?u)" using u by (rule hd_dropWhile)
  ultimately show ?thesis by (simp add: str_strip_def)
qed

lemma str_strip_id:
  "e \<noteq> [] \<Longrightarrow> \<not> isspace (hd e) \<Longrightarrow> \<not> isspace (last e) \<Longrightarrow> str_strip e = e"
proof -
  assume e: "e \<noteq> []" and h: "\<not> isspace (hd e)" and l: "\<not> isspace (last e)"
  have 1: "dropWhile isspace e = e" using e h by (cases e) auto
  have "rev e \<noteq> []" "\<not> isspace (hd (rev e))" using e l by (simp_all add: hd_rev)
  then have 2: "dropWhile isspace (rev e) = rev e" by (cases "rev e") auto
  show ?thesis by (simp add: str_strip_def 1 2)
qed

lemma str_strip_set: "set (str_strip s) \<subseteq> set s"
proof -
  have "set (dropWhile isspace (rev (dropWhile isspace s))) \<subseteq> set (rev (dropWhile isspace s))"
    by (rule set_dropWhileD [THEN subsetI])
  also have "\<dots> \<subseteq> set s" using set_dropWhileD by fastforce
  finally show ?thesis by (simp add: str_strip_def)
qed

lemma exclude_entries_comprehension:
  "[f (str_strip e). e \<leftarrow> str_split CHR '','' ex, str_strip e \<noteq> []]
     = map f (exclude_entries ex)"
  by (simp add: comprehension_map_filter exclude_entries_def filter_map comp_def)

lemma bandit_command_entries:
  "bandit_command p ex =
     [''bandit'', ''-r'', p, ''-f'', ''txt'']
     @ map (\<lambda>e. ''--exclude='' @ e) (exclude_entries ex)"
  unfolding bandit_command_def Let_def
  using exclude_entries_comprehension [of "\<lambda>e. ''--exclude='' @ e" ex] by simp

lemma flake8_command_entries:
  "flake8_command p ex =
     [''flake8'', p, ''--extend-ignore=E722,B001,B028'', ''--select=E,W,F,C90'',
      ''--max-complexity=10'']
     @ (if exclude_entries ex = [] then []
        else [''--exclude'', str_join '','' (exclude_entries ex)])"
  unfolding flake8_command_def Let_def
  using exclude_entries_comprehension [of "\<lambda>e. e" ex] by simp

lemma pylint_command_entries:
  "pylint_command p ex =
     [''pylint'', p, ''--disable=C0301,W0703,W0702,broad-except'']
     @ (if exclude_entries ex = [] then []
        else [''--ignore'', str_join '','' (exclude_entries ex)])"
  unfolding pylint_command_def Let_def
  using exclude_entries_comprehension [of "\<lambda>e. e" ex] by simp

lemma exclude_entries_normal:
  "e \<in> set (exclude_entries ex) \<Longrightarrow>
     e \<noteq> [] \<and> \<not> isspace (hd e) \<and> \<not> isspace (last e) \<and> CHR '','' \<notin> set e"
proof -
  assume "e \<in> set (exclude_entries ex)"
  then obtain q where q: "q \<in> set (str_split CHR '','' ex)" and e: "e = str_strip q" and n: "e \<noteq> []"
    by (auto simp: exclude_entries_def)
  have "CHR '','' \<notin> set q" using q by (rule str_split_no_sep)
  then have "CHR '','' \<notin> set e" using str_strip_set [of q] e by auto
  then show ?thesis using n e str_strip_hd [of q] str_strip_last [of q] by simp
qed

lemma exclude_entries_subseq:
  "subseq (exclude_entries ex) (map str_strip (str_split CHR '','' ex))"
  by (simp add: exclude_entries_def)

section \<open>The adapters and the main function\<close>

lemma parse_args_tool: "parse_args cl = Inr args \<Longrightarrow> tool args \<in> set tool_choices"
  by (cases cl) (auto simp: parse_args_def Let_def tool_choices_def split: option.splits if_splits)

lemma world_simps [simp]:
  "logged (log l msg w) = logged w @ [(l, msg)]"
  "spawned (log l msg w) = spawned w"
  "opened (log l msg w) = opened w"
  "written (log l msg w) = written w"
  "printed (log l msg w) = printed w"
  "logged (spawn c w) = logged w"
  "spawned (spawn c w) = spawned w @ [c]"
  "opened (spawn c w) = opened w"
  "written (spawn c w) = written w"
  "printed (spawn c w) = printed w"
  "logged (print s w) = logged w"
  "spawned (print s w) = spawned w"
  "opened (print s w) = opened w"
  "written (print s w) = written w"
  "printed (print s w) = printed w @ s @ [CHR 0x0A]"
  by (simp_all add: log_def spawn_def print_def)

lemma world0_simps [simp]:
  "logged world0 = []" "spawned world0 = []" "opened world0 = []"
  "written world0 = []" "printed world0 = []"
  by (simp_all add: world0_def)

lemma tool_cases:
  "tool args \<in> set tool_choices \<Longrightarrow>
     tool args = ''bandit'' \<or> tool args = ''flake8'' \<or> tool args = ''pylint''
     \<or> tool args = ''pyre-check''"
  by (simp add: tool_choices_def)

lemma choose_tool_bandit:
  "tool args = ''bandit'' \<Longrightarrow>
     choose_tool ev args w = Some (analyze_with_bandit ev (path args) (exclude args) w)"
  by (simp add: choose_tool_def)

lemma choose_tool_flake8:
  "tool args = ''flake8'' \<Longrightarrow>
     choose_tool ev args w = Some (analyze_with_flake8 ev (path args) (exclude args) w)"
  by (simp add: choose_tool_def)

lemma choose_tool_pylint:
  "tool args = ''pylint'' \<Longrightarrow>
     choose_tool ev args w = Some (analyze_with_pylint ev (path args) (exclude args) w)"
  by (simp add: choose_tool_def)

lemma choose_tool_pyre:
  "tool args = ''pyre-check'' \<Longrightarrow>
     choose_tool ev args w = Some (analyze_with_pyre ev (path args) (exclude args) w)"
  by (simp add: choose_tool_def)

lemma command_for_simps:
  "command_for ''bandit'' p ex = bandit_command p ex"
  "command_for ''flake8'' p ex = flake8_command p ex"
  "command_for ''pylint'' p ex = pylint_command p ex"
  "command_for ''pyre-check'' p ex = pyre_command p ex"
  by (simp_all add: command_for_def)

lemma tool_title_simps:
  "tool_title ''bandit'' = ''Bandit''"
  "tool_title ''flake8'' = ''Flake8''"
  "tool_title ''pylint'' = ''Pylint''"
  "tool_title ''pyre-check'' = ''Pyre''"
  by (simp_all add: tool_title_def)

lemma bandit_world:
  "spawned (snd (analyze_with_bandit ev p ex w)) = spawned w @ [bandit_command p ex]
   \<and> same_output w (snd (analyze_with_bandit ev p ex w))"
  by (simp add: analyze_with_bandit_def same_output_def Let_def
           split: sum.splits py_exception.splits)

lemma flake8_world:
  "spawned (snd (analyze_with_flake8 ev p ex w)) = spawned w @ [flake8_command p ex]
   \<and> same_output w (snd (analyze_with_flake8 ev p ex w))"
  by (simp add: analyze_with_flake8_def same_output_def Let_def
           split: sum.splits py_exception.splits)

lemma pylint_world:
  "spawned (snd (analyze_with_pylint ev p ex w)) = spawned w @ [pylint_command p ex]
   \<and> same_output w (snd (analyze_with_pylint ev p ex w))"
  by (simp add: analyze_with_pylint_def same_output_def Let_def
           split: sum.splits py_exception.splits)

lemma pyre_world:
  "spawned (snd (analyze_with_pyre ev p ex w)) = spawned w @ [pyre_command p ex]
   \<and> same_output w (snd (analyze_with_pyre ev p ex w))"
  by (simp add: analyze_with_pyre_def same_output_def Let_def
           split: sum.splits py_exception.splits)

lemma choose_tool_some:
  assumes "tool args \<in> set tool_choices"
  shows "\<exists>r w'. choose_tool ev args w = Some (r, w')
           \<and> spawned w' = spawned w @ [command_for (tool args) (path args) (exclude args)]
           \<and> same_output w w'"
proof -
  consider "tool args = ''bandit''" | "tool args = ''flake8''" | "tool args = ''pylint''"
    | "tool args = ''pyre-check''"
    using tool_cases [OF assms] by blast
  then show ?thesis
  proof cases
    case 1
    show ?thesis
      using choose_tool_bandit [OF 1, of ev w] bandit_world [of ev "path args" "exclude args" w]
      by (simp add: 1 command_for_simps) (metis prod.collapse)
  next
    case 2
    show ?thesis
      using choose_tool_flake8 [OF 2, of ev w] flake8_world [of ev "path args" "exclude args" w]
      by (simp add: 2 command_for_simps) (metis prod.collapse)
  next
    case 3
    show ?thesis
      using choose_tool_pylint [OF 3, of ev w] pylint_world [of ev "path args" "exclude args" w]
      by (simp add: 3 command_for_simps) (metis prod.collapse)
  next
    case 4
    show ?thesis
      using choose_tool_pyre [OF 4, of ev w] pyre_world [of ev "path args" "exclude args" w]
      by (simp add: 4 command_for_simps) (metis prod.collapse)
  qed
qed

lemma bandit_failed:
  "subprocess_run ev (bandit_command p ex) = Inl (CalledProcessError m err) \<Longrightarrow>
     fst (analyze_with_bandit ev p ex w) = ''Bandit analysis failed: '' @ m @ [CHR 0x0A] @ err"
  by (simp add: analyze_with_bandit_def Let_def)

lemma flake8_failed:
  "subprocess_run ev (flake8_command p ex) = Inl (CalledProcessError m err) \<Longrightarrow>
     fst (analyze_with_flake8 ev p ex w) = ''Flake8 analysis failed: '' @ m @ [CHR 0x0A] @ err"
  by (simp add: analyze_with_flake8_def Let_def)

lemma pylint_failed:
  "subprocess_run ev (pylint_command p ex) = Inl (CalledProcessError m err) \<Longrightarrow>
     fst (analyze_with_pylint ev p ex w) = ''Pylint analysis failed: '' @ m @ [CHR 0x0A] @ err"
  by (simp add: analyze_with_pylint_def Let_def)

lemma pyre_failed:
  "subprocess_run ev (pyre_command p ex) = Inl (CalledProcessError m err) \<Longrightarrow>
     fst (analyze_with_pyre ev p ex w) = ''Pyre analysis failed: '' @ m @ [CHR 0x0A] @ err"
  by (simp add: analyze_with_pyre_def Let_def)

lemma bandit_not_found:
  "subprocess_run ev (bandit_command p ex) = Inl (FileNotFoundError m) \<Longrightarrow>
     fst (analyze_with_bandit ev p ex w) = ''Error running Bandit: '' @ m"
  by (simp add: analyze_with_bandit_def Let_def)

lemma flake8_not_found:
  "subprocess_run ev (flake8_command p ex) = Inl (FileNotFoundError m) \<Longrightarrow>
     fst (analyze_with_flake8 ev p ex w) = ''Error running Flake8: '' @ m"
  by (simp add: analyze_with_flake8_def Let_def)

lemma pylint_not_found:
  "subprocess_run ev (pylint_command p ex) = Inl (FileNotFoundError m) \<Longrightarrow>
     fst (analyze_with_pylint ev p ex w) = ''Error running Pylint: '' @ m"
  by (simp add: analyze_with_pylint_def Let_def)

lemma pyre_not_found:
  "subprocess_run ev (pyre_command p ex) = Inl (FileNotFoundError m) \<Longrightarrow>
     fst (analyze_with_pyre ev p ex w)
       = ''Pyre is not installed or not in PATH. Please install Pyre.''"
  by (simp add: analyze_with_pyre_def Let_def)

lemma choose_tool_failed:
  assumes "tool args \<in> set tool_choices"
    and "subprocess_run ev (command_for (tool args) (path args) (exclude args))
           = Inl (CalledProcessError m err)"
  shows "\<exists>w'. choose_tool ev args w
           = Some (tool_title (tool args) @ '' analysis failed: '' @ m @ [CHR 0x0A] @ err, w')"
proof -
  consider "tool args = ''bandit''" | "tool args = ''flake8''" | "tool args = ''pylint''"
    | "tool args = ''pyre-check''"
    using tool_cases [OF assms(1)] by blast
  then show ?thesis
  proof cases
    case 1
    have "subprocess_run ev (bandit_command (path args) (exclude args))
            = Inl (CalledProcessError m err)"
      using assms(2) by (simp add: 1 command_for_simps)
    from bandit_failed [OF this, of w] show ?thesis
      using choose_tool_bandit [OF 1, of ev w]
      by (simp add: 1 tool_title_simps) (metis prod.collapse)
  next
    case 2
    have "subprocess_run ev (flake8_command (path args) (exclude args))
            = Inl (CalledProcessError m err)"
      using assms(2) by (simp add: 2 command_for_simps)
    from flake8_failed [OF this, of w] show ?thesis
      using choose_tool_flake8 [OF 2, of ev w]
      by (simp add: 2 tool_title_simps) (metis prod.collapse)
  next
    case 3
    have "subprocess_run ev (pylint_command (path args) (exclude args))
            = Inl (CalledProcessError m err)"
      using assms(2) by (simp add: 3 command_for_simps)
    from pylint_failed [OF this, of w] show ?thesis
      using choose_tool_pylint [OF 3, of ev w]
      by (simp add: 3 tool_title_simps) (metis prod.collapse)
  next
    case 4
    have "subprocess_run ev (pyre_command (path args) (exclude args))
            = Inl (CalledProcessError m err)"
      using assms(2) by (simp add: 4 command_for_simps)
    from pyre_failed [OF this, of w] show ?thesis
      using choose_tool_pyre [OF 4, of ev w]
      by (simp add: 4 tool_title_simps) (metis prod.collapse)
  qed
qed

lemma choose_tool_not_found:
  assumes "tool args \<in> set tool_choices"
    and "subprocess_run ev (command_for (tool args) (path args) (exclude args))
           = Inl (FileNotFoundError m)"
  shows "\<exists>w'. choose_tool ev args w
           = Some (if tool args = ''pyre-check''
                   then ''Pyre is not installed or not in PATH. Please install Pyre.''
                   else ''Error running '' @ tool_title (tool args) @ '': '' @ m, w')"
proof -
  consider "tool args = ''bandit''" | "tool args = ''flake8''" | "tool args = ''pylint''"
    | "tool args = ''pyre-check''"
    using tool_cases [OF assms(1)] by blast
  then show ?thesis
  proof cases
    case 1
    have "subprocess_run ev (bandit_command (path args) (exclude args))
            = Inl (FileNotFoundError m)"
      using assms(2) by (simp add: 1 command_for_simps)
    from bandit_not_found [OF this, of w] show ?thesis
      using choose_tool_bandit [OF 1, of ev w]
      by (simp add: 1 tool_title_simps) (metis prod.collapse)
  next
    case 2
    have "subprocess_run ev (flake8_command (path args) (exclude args))
            = Inl (FileNotFoundError m)"
      using assms(2) by (simp add: 2 command_for_simps)
    from flake8_not_found [OF this, of w] show ?thesis
      using choose_tool_flake8 [OF 2, of ev w]
      by (simp add: 2 tool_title_simps) (metis prod.collapse)
  next
    case 3
    have "subprocess_run ev (pylint_command (path args) (exclude args))
            = Inl (FileNotFoundError m)"
      using assms(2) by (simp add: 3 command_for_simps)
    from pylint_not_found [OF this, of w] show ?thesis
      using choose_tool_pylint [OF 3, of ev w]
      by (simp add: 3 tool_title_simps) (metis prod.collapse)
  next
    case 4
    have "subprocess_run ev (pyre_command (path args) (exclude args))
            = Inl (FileNotFoundError m)"
      using assms(2) by (simp add: 4 command_for_simps)
    from pyre_not_found [OF this, of w] show ?thesis
      using choose_tool_pyre [OF 4, of ev w]
      by (simp add: 4 tool_title_simps) (metis prod.collapse)
  qed
qed

lemma bandit_other:
  "subprocess_run ev (bandit_command p ex) = Inl (OtherException m) \<Longrightarrow>
     fst (analyze_with_bandit ev p ex w) = ''Error running Bandit: '' @ m"
  by (simp add: analyze_with_bandit_def Let_def)

lemma flake8_other:
  "subprocess_run ev (flake8_command p ex) = Inl (OtherException m) \<Longrightarrow>
     fst (analyze_with_flake8 ev p ex w) = ''Error running Flake8: '' @ m"
  by (simp add: analyze_with_flake8_def Let_def)

lemma pylint_other:
  "subprocess_run ev (pylint_command p ex) = Inl (OtherException m) \<Longrightarrow>
     fst (analyze_with_pylint ev p ex w) = ''Error running Pylint: '' @ m"
  by (simp add: analyze_with_pylint_def Let_def)

lemma pyre_other:
  "subprocess_run ev (pyre_command p ex) = Inl (OtherException m) \<Longrightarrow>
     fst (analyze_with_pyre ev p ex w) = ''Error running Pyre: '' @ m"
  by (simp add: analyze_with_pyre_def Let_def)

lemma choose_tool_other:
  assumes "tool args \<in> set tool_choices"
    and "subprocess_run ev (command_for (tool args) (path args) (exclude args))
           = Inl (OtherException m)"
  shows "\<exists>w'. choose_tool ev args w
           = Some (''Error running '' @ tool_title (tool args) @ '': '' @ m, w')"
proof -
  consider "tool args = ''bandit''" | "tool args = ''flake8''" | "tool args = ''pylint''"
    | "tool args = ''pyre-check''"
    using tool_cases [OF assms(1)] by blast
  then show ?thesis
  proof cases
    case 1
    have "subprocess_run ev (bandit_command (path args) (exclude args))
            = Inl (OtherException m)"
      using assms(2) by (simp add: 1 command_for_simps)
    from bandit_other [OF this, of w] show ?thesis
      using choose_tool_bandit [OF 1, of ev w]
      by (simp add: 1 tool_title_simps) (metis prod.collapse)
  next
    case 2
    have "subprocess_run ev (flake8_command (path args) (exclude args))
            = Inl (OtherException m)"
      using assms(2) by (simp add: 2 command_for_simps)
    from flake8_other [OF this, of w] show ?thesis
      using choose_tool_flake8 [OF 2, of ev w]
      by (simp add: 2 tool_title_simps) (metis prod.collapse)
  next
    case 3
    have "subprocess_run ev (pylint_command (path args) (exclude args))
            = Inl (OtherException m)"
      using assms(2) by (simp add: 3 command_for_simps)
    from pylint_other [OF this, of w] show ?thesis
      using choose_tool_pylint [OF 3, of ev w]
      by (simp add: 3 tool_title_simps) (metis prod.collapse)
  next
    case 4
    have "subprocess_run ev (pyre_command (path args) (exclude args))
            = Inl (OtherException m)"
      using assms(2) by (simp add: 4 command_for_simps)
    from pyre_other [OF this, of w] show ?thesis
      using choose_tool_pyre [OF 4, of ev w]
      by (simp add: 4 tool_title_simps) (metis prod.collapse)
  qed
qed

lemma main_run:
  assumes "parse_args cl = Inr args" and "path_exists ev (path args)"
    and "choose_tool ev args world0 = Some (r, w')"
  shows "main ev cl = output_results ev args r w'"
  using assms by (simp add: main_def check_path_def)

lemma main_no_path:
  assumes "parse_args cl = Inr args" and "\<not> path_exists ev (path args)"
  shows "main ev cl =
           (log ERROR (''Error: Path '' @ [CHR 0x27] @ path args @ [CHR 0x27]
                       @ '' does not exist.'') world0, 1)"
  using assms by (simp add: main_def check_path_def)

lemma output_results_status:
  "snd (output_results ev args r w) =
     (if truthy (report_file args) \<and> write_file ev (the (report_file args)) r \<noteq> None
      then 1 else 0)"
  by (simp add: output_results_def Let_def split: option.splits)

lemma output_results_stdout:
  "\<not> truthy (report_file args) \<Longrightarrow> output_results ev args r w = (print r w, 0)"
  by (simp add: output_results_def)

lemma output_results_file:
  "report_file args = Some f \<Longrightarrow> f \<noteq> [] \<Longrightarrow> write_file ev f r = None \<Longrightarrow>
     output_results ev args r w =
       (log INFO (''Report saved to '' @ f)
          (w\<lparr>opened := opened w @ [f], written := written w @ [(f, r)]\<rparr>), 0)"
  by (simp add: output_results_def truthy_def Let_def)

lemma str_strip_Nil_iff: "str_strip s = [] \<longleftrightarrow> list_all isspace s"
proof
  assume "list_all isspace s"
  then have "\<forall>x \<in> set s. isspace x" by (simp add: list_all_iff)
  then show "str_strip s = []" by (auto simp: str_strip_def dest: set_dropWhileD)
next
  assume a: "str_strip s = []"
  obtain l r where s: "s = l @ str_strip s @ r" and l: "list_all isspace l"
    and r: "list_all isspace r"
    using str_strip_decompose [of s] by blast
  have "s = l @ r" using s a by simp
  then show "list_all isspace s" using l r by (metis list_all_append)
qed

lemma exclude_entries_origin:
  assumes "e \<in> set (exclude_entries ex)"
  shows "\<exists>q \<in> set (str_split CHR '','' ex). \<exists>l r.
           q = l @ e @ r \<and> list_all isspace l \<and> list_all isspace r"
proof -
  obtain q where q: "q \<in> set (str_split CHR '','' ex)" and e: "e = str_strip q"
    using assms by (auto simp: exclude_entries_def)
  show ?thesis using q str_strip_decompose [of q] unfolding e by blast
qed

lemma exclude_entries_complete:
  assumes "q \<in> set (str_split CHR '','' ex)" and "\<not> list_all isspace q"
  shows "str_strip q \<in> set (exclude_entries ex)"
  using assms by (simp add: exclude_entries_def str_strip_Nil_iff)

lemma exclude_entries_clean:
  assumes "\<forall>e \<in> set (str_split CHR '','' ex). e \<noteq> [] \<and> \<not> isspace (hd e) \<and> \<not> isspace (last e)"
  shows "exclude_entries ex = str_split CHR '','' ex"
proof -
  have 1: "map str_strip (str_split CHR '','' ex) = str_split CHR '','' ex"
    using assms by (simp add: map_idI str_strip_id)
  have 2: "filter (\<lambda>e. e \<noteq> []) (str_split CHR '','' ex) = str_split CHR '','' ex"
    using assms by (simp add: filter_id_conv)
  show ?thesis by (simp add: exclude_entries_def 1 2)
qed

lemma main_usage:
  "parse_args cl = Inl status \<Longrightarrow> main ev cl = (world0, status)"
  by (simp add: main_def)

lemma main_some:
  assumes "parse_args cl = Inr args" and "path_exists ev (path args)"
  shows "\<exists>r w'. choose_tool ev args world0 = Some (r, w')
           \<and> spawned w' = [command_for (tool args) (path args) (exclude args)]
           \<and> opened w' = [] \<and> written w' = [] \<and> printed w' = []
           \<and> main ev cl = output_results ev args r w'"
proof -
  obtain r w' where c: "choose_tool ev args world0 = Some (r, w')"
    and s: "spawned w' = spawned world0 @ [command_for (tool args) (path args) (exclude args)]"
    and o: "same_output world0 w'"
    using choose_tool_some [OF parse_args_tool [OF assms(1)], of ev world0] by blast
  have "main ev cl = output_results ev args r w'" using assms c by (rule main_run)
  then show ?thesis using c s o by (simp add: same_output_def)
qed

lemma output_results_spawned: "spawned (fst (output_results ev args r w)) = spawned w"
  by (simp add: output_results_def Let_def split: option.splits)

lemma bandit_log:
  "(ERROR, ''Invalid tool specified: '' @ t) \<in> set (logged (snd (analyze_with_bandit ev p ex w)))
     \<Longrightarrow> (ERROR, ''Invalid tool specified: '' @ t) \<in> set (logged w)"
  by (auto simp: analyze_with_bandit_def Let_def split: sum.splits py_exception.splits)

lemma flake8_log:
  "(ERROR, ''Invalid tool specified: '' @ t) \<in> set (logged (snd (analyze_with_flake8 ev p ex w)))
     \<Longrightarrow> (ERROR, ''Invalid tool specified: '' @ t) \<in> set (logged w)"
  by (auto simp: analyze_with_flake8_def Let_def split: sum.splits py_exception.splits)

lemma pylint_log:
  "(ERROR, ''Invalid tool specified: '' @ t) \<in> set (logged (snd (analyze_with_pylint ev p ex w)))
     \<Longrightarrow> (ERROR, ''Invalid tool specified: '' @ t) \<in> set (logged w)"
  by (auto simp: analyze_with_pylint_def Let_def split: sum.splits py_exception.splits)

lemma pyre_log:
  "(ERROR, ''Invalid tool specified: '' @ t) \<in> set (logged (snd (analyze_with_pyre ev p ex w)))
     \<Longrightarrow> (ERROR, ''Invalid tool specified: '' @ t) \<in> set (logged w)"
  by (auto simp: analyze_with_pyre_def Let_def split: sum.splits py_exception.splits)

lemma choose_tool_log:
  assumes "choose_tool ev args w = Some (r, w')"
    and "(ERROR, ''Invalid tool specified: '' @ t) \<in> set (logged w')"
  shows "(ERROR, ''Invalid tool specified: '' @ t) \<in> set (logged w)"
proof -
  consider "w' = snd (analyze_with_bandit ev (path args) (exclude args) w)"
    | "w' = snd (analyze_with_flake8 ev (path args) (exclude args) w)"
    | "w' = snd (analyze_with_pylint ev (path args) (exclude args) w)"
    | "w' = snd (analyze_with_pyre ev (path args) (exclude args) w)"
    using assms(1) by (auto simp: choose_tool_def split: if_splits)
  then show ?thesis
    using assms(2) bandit_log flake8_log pylint_log pyre_log by cases blast+
qed

lemma output_results_log:
  "(ERROR, ''Invalid tool specified: '' @ t) \<in> set (logged (fst (output_results ev args r w)))
     \<Longrightarrow> (ERROR, ''Invalid tool specified: '' @ t) \<in> set (logged w)"
  by (auto simp: output_results_def print_def Let_def split: if_splits option.splits)

lemma parse_args_report_file:
  "parse_args (Supplied p rf ex tv) = Inr args \<Longrightarrow>
     parse_args (Supplied p rf' ex tv) = Inr (args\<lparr>report_file := rf'\<rparr>)
     \<and> report_file args = rf \<and> path args = p"
  by (auto simp: parse_args_def Let_def split: option.splits if_splits)

lemma parse_args_report_file_usage:
  "parse_args (Supplied p rf ex tv) = Inl status \<Longrightarrow>
     parse_args (Supplied p rf' ex tv) = Inl status"
  by (auto simp: parse_args_def Let_def split: option.splits if_splits)

lemma choose_tool_report_file:
  "choose_tool ev (args\<lparr>report_file := rf\<rparr>) w = choose_tool ev args w"
  by (simp add: choose_tool_def)

section \<open>Claims\<close>

text \<open>
  Claim C1, as stated, at a concrete input: the bandit process exits with a non-zero
  status (\<open>subprocess.run\<close> raises \<open>CalledProcessError\<close>), a report file is asked for and
  writing it raises \<open>IOError\<close>. The exit status of the run is 1, not 0.
\<close>

theorem analysis_failure_exit_status_counterexample:
  "subprocess_run (const_env True (Inl (CalledProcessError ''exit status 1'' ''boom''))
                     (Some ''Permission denied''))
     (bandit_command ''/tmp/proj'' [])
     = Inl (CalledProcessError ''exit status 1'' ''boom'')
   \<and> snd (main (const_env True (Inl (CalledProcessError ''exit status 1'' ''boom''))
                  (Some ''Permission denied''))
              (Supplied ''/tmp/proj'' (Some ''/report.txt'') None None)) = 1"
  by (simp add: const_env_def main_def parse_args_def check_path_def choose_tool_def
        analyze_with_bandit_def output_results_def truthy_def Let_def)

text \<open>
  Claim C1, amended: when the invoked process exits with a non-zero status, each of the
  four adapters returns its description of the failure, the text of the exception, a
  newline and the captured stderr. \<open>main\<close> goes on to the output of this text, and the
  exit status of the run is 0 unless a report file was asked for and writing it fails, in
  which case it is 1.
\<close>

theorem analysis_failure_is_reported:
  "(subprocess_run ev (bandit_command p ex) = Inl (CalledProcessError m err) \<longrightarrow>
      fst (analyze_with_bandit ev p ex w) = ''Bandit analysis failed: '' @ m @ [CHR 0x0A] @ err)
   \<and> (subprocess_run ev (flake8_command p ex) = Inl (CalledProcessError m err) \<longrightarrow>
      fst (analyze_with_flake8 ev p ex w) = ''Flake8 analysis failed: '' @ m @ [CHR 0x0A] @ err)
   \<and> (subprocess_run ev (pylint_command p ex) = Inl (CalledProcessError m err) \<longrightarrow>
      fst (analyze_with_pylint ev p ex w) = ''Pylint analysis failed: '' @ m @ [CHR 0x0A] @ err)
   \<and> (subprocess_run ev (pyre_command p ex) = Inl (CalledProcessError m err) \<longrightarrow>
      fst (analyze_with_pyre ev p ex w) = ''Pyre analysis failed: '' @ m @ [CHR 0x0A] @ err)
   \<and> (parse_args cl = Inr args \<and> path_exists ev (path args)
       \<and> subprocess_run ev (command_for (tool args) (path args) (exclude args))
           = Inl (CalledProcessError m err) \<longrightarrow>
      (let msg = tool_title (tool args) @ '' analysis failed: '' @ m @ [CHR 0x0A] @ err
       in (\<exists>w'. choose_tool ev args world0 = Some (msg, w')
                \<and> main ev cl = output_results ev args msg w')
          \<and> snd (main ev cl) =
              (if truthy (report_file args) \<and> write_file ev (the (report_file args)) msg \<noteq> None
               then 1 else 0)))"
proof -
  have main_part: "(let msg = tool_title (tool args) @ '' analysis failed: '' @ m @ [CHR 0x0A] @ err
       in (\<exists>w'. choose_tool ev args world0 = Some (msg, w')
                \<and> main ev cl = output_results ev args msg w')
          \<and> snd (main ev cl) =
              (if truthy (report_file args) \<and> write_file ev (the (report_file args)) msg \<noteq> None
               then 1 else 0))"
    if a: "parse_args cl = Inr args" and b: "path_exists ev (path args)"
      and c: "subprocess_run ev (command_for (tool args) (path args) (exclude args))
                = Inl (CalledProcessError m err)"
  proof -
    let ?msg = "tool_title (tool args) @ '' analysis failed: '' @ m @ [CHR 0x0A] @ err"
    obtain w' where w': "choose_tool ev args world0 = Some (?msg, w')"
      using choose_tool_failed [OF parse_args_tool [OF a] c] by blast
    have m: "main ev cl = output_results ev args ?msg w'"
      using a b w' by (rule main_run)
    have "snd (main ev cl) =
            (if truthy (report_file args) \<and> write_file ev (the (report_file args)) ?msg \<noteq> None
             then 1 else 0)"
      unfolding m by (rule output_results_status)
    then show ?thesis using w' m unfolding Let_def by blast
  qed
  show ?thesis
    using bandit_failed [of ev p ex m err w] flake8_failed [of ev p ex m err w]
      pylint_failed [of ev p ex m err w] pyre_failed [of ev p ex m err w] main_part
    by blast
qed

text \<open>Claim C1, the amended statement at a failing bandit run without report file.\<close>

theorem analysis_failure_is_reported_witness:
  "parse_args (Supplied ''/tmp/proj'' None None None)
     = Inr \<lparr>path = ''/tmp/proj'', report_file = None, exclude = [], tool = ''bandit''\<rparr>
   \<and> subprocess_run (const_env True (Inl (CalledProcessError ''exit status 1'' ''boom'')) None)
        (bandit_command ''/tmp/proj'' [])
       = Inl (CalledProcessError ''exit status 1'' ''boom'')
   \<and> fst (analyze_with_bandit
            (const_env True (Inl (CalledProcessError ''exit status 1'' ''boom'')) None)
            ''/tmp/proj'' [] world0)
       = ''Bandit analysis failed: exit status 1'' @ [CHR 0x0A] @ ''boom''
   \<and> snd (main (const_env True (Inl (CalledProcessError ''exit status 1'' ''boom'')) None)
              (Supplied ''/tmp/proj'' None None None)) = 0"
  using analysis_failure_is_reported
    [of "const_env True (Inl (CalledProcessError ''exit status 1'' ''boom'')) None"
        "''/tmp/proj''" "[]" "''exit status 1''" "''boom''" world0
        "Supplied ''/tmp/proj'' None None None"
        "\<lparr>path = ''/tmp/proj'', report_file = None, exclude = [], tool = ''bandit''\<rparr>"]
  by (simp add: const_env_def parse_args_def command_for_def truthy_def Let_def)

text \<open>
  Claim C2: for every exclude string, with its normalised entries (the pieces between the
  commas, whitespace trimmed, empty entries dropped): the bandit command is the base
  arguments followed by one \<open>--exclude=<entry>\<close> flag per entry; the flake8 command is the
  base arguments followed by a single \<open>--exclude\<close> flag with the comma-joined entries, or
  by nothing when no entry remains; the pylint command does the same with \<open>--ignore\<close>.
  Every entry is non-empty, has no whitespace at either end, contains no comma, and is a
  piece of the exclude string without the whitespace at its ends; every piece that is not
  all whitespace gives an entry.
\<close>

theorem exclude_flags_per_adapter:
  "bandit_command p ex =
     [''bandit'', ''-r'', p, ''-f'', ''txt'']
     @ map (\<lambda>e. ''--exclude='' @ e) (exclude_entries ex)
   \<and> flake8_command p ex =
     [''flake8'', p, ''--extend-ignore=E722,B001,B028'', ''--select=E,W,F,C90'',
      ''--max-complexity=10'']
     @ (if exclude_entries ex = [] then []
        else [''--exclude'', str_join '','' (exclude_entries ex)])
   \<and> pylint_command p ex =
     [''pylint'', p, ''--disable=C0301,W0703,W0702,broad-except'']
     @ (if exclude_entries ex = [] then []
        else [''--ignore'', str_join '','' (exclude_entries ex)])
   \<and> (\<forall>e \<in> set (exclude_entries ex).
         e \<noteq> [] \<and> \<not> isspace (hd e) \<and> \<not> isspace (last e) \<and> CHR '','' \<notin> set e
         \<and> (\<exists>q \<in> set (str_split CHR '','' ex). \<exists>l r.
               q = l @ e @ r \<and> list_all isspace l \<and> list_all isspace r))
   \<and> (\<forall>q \<in> set (str_split CHR '','' ex).
         \<not> list_all isspace q \<longrightarrow> str_strip q \<in> set (exclude_entries ex))"
proof -
  have 1: "\<forall>e \<in> set (exclude_entries ex).
         e \<noteq> [] \<and> \<not> isspace (hd e) \<and> \<not> isspace (last e) \<and> CHR '','' \<notin> set e
         \<and> (\<exists>q \<in> set (str_split CHR '','' ex). \<exists>l r.
               q = l @ e @ r \<and> list_all isspace l \<and> list_all isspace r)"
    using exclude_entries_normal [of _ ex] exclude_entries_origin [of _ ex] by blast
  have 2: "\<forall>q \<in> set (str_split CHR '','' ex).
         \<not> list_all isspace q \<longrightarrow> str_strip q \<in> set (exclude_entries ex)"
    using exclude_entries_complete [of _ ex] by blast
  show ?thesis
    using bandit_command_entries [of p ex] flake8_command_entries [of p ex]
      pylint_command_entries [of p ex] 1 2
    by blast
qed

text \<open>
  Claim C2 at the exclude string \<open>a, b ,c\<close>, whose entries are \<open>a\<close>, \<open>b\<close>, \<open>c\<close>, and at
  an exclude string without entries.
\<close>

theorem exclude_flags_per_adapter_witness:
  "exclude_entries ''a, b ,c'' = [''a'', ''b'', ''c'']
   \<and> bandit_command ''/tmp/proj'' ''a, b ,c'' =
       [''bandit'', ''-r'', ''/tmp/proj'', ''-f'', ''txt'',
        ''--exclude=a'', ''--exclude=b'', ''--exclude=c'']
   \<and> flake8_command ''/tmp/proj'' ''a, b ,c'' =
       [''flake8'', ''/tmp/proj'', ''--extend-ignore=E722,B001,B028'', ''--select=E,W,F,C90'',
        ''--max-complexity=10'', ''--exclude'', ''a,b,c'']
   \<and> pylint_command ''/tmp/proj'' ''a, b ,c'' =
       [''pylint'', ''/tmp/proj'', ''--disable=C0301,W0703,W0702,broad-except'',
        ''--ignore'', ''a,b,c'']
   \<and> flake8_command ''/tmp/proj'' '' , '' =
       [''flake8'', ''/tmp/proj'', ''--extend-ignore=E722,B001,B028'', ''--select=E,W,F,C90'',
        ''--max-complexity=10'']"
proof -
  have 1: "exclude_entries ''a, b ,c'' = [''a'', ''b'', ''c'']"
    by (simp add: exclude_entries_def str_strip_def isspace_def)
  have 2: "exclude_entries '' , '' = []"
    by (simp add: exclude_entries_def str_strip_def isspace_def)
  show ?thesis
    using exclude_flags_per_adapter [of "''/tmp/proj''" "''a, b ,c''"]
      exclude_flags_per_adapter [of "''/tmp/proj''" "'' , ''"]
    by (simp add: 1 2)
qed

text \<open>
  Claim C3: for the path \<open>/tmp/proj\<close>, the tool flake8 and the exclude string
  \<open>tests,build\<close>, the command starts with \<open>flake8\<close>, contains \<open>--extend-ignore=E722,B001,B028\<close>,
  \<open>--select=E,W,F,C90\<close> and \<open>--max-complexity=10\<close>, and has \<open>--exclude\<close> and \<open>tests,build\<close>
  as two consecutive elements; when the path exists it is the one command that \<open>main\<close>
  runs.
\<close>

theorem flake8_scenario_command:
  "flake8_command ''/tmp/proj'' ''tests,build'' =
     [''flake8'', ''/tmp/proj'', ''--extend-ignore=E722,B001,B028'', ''--select=E,W,F,C90'',
      ''--max-complexity=10'', ''--exclude'', ''tests,build'']
   \<and> hd (flake8_command ''/tmp/proj'' ''tests,build'') = ''flake8''
   \<and> ''--extend-ignore=E722,B001,B028'' \<in> set (flake8_command ''/tmp/proj'' ''tests,build'')
   \<and> ''--select=E,W,F,C90'' \<in> set (flake8_command ''/tmp/proj'' ''tests,build'')
   \<and> ''--max-complexity=10'' \<in> set (flake8_command ''/tmp/proj'' ''tests,build'')
   \<and> flake8_command ''/tmp/proj'' ''tests,build'' ! 5 = ''--exclude''
   \<and> flake8_command ''/tmp/proj'' ''tests,build'' ! 6 = ''tests,build''
   \<and> spawned (fst (main (const_env True res wr)
                       (Supplied ''/tmp/proj'' rf (Some ''tests,build'') (Some ''flake8''))))
       = [flake8_command ''/tmp/proj'' ''tests,build'']"
proof -
  have cmd: "flake8_command ''/tmp/proj'' ''tests,build'' =
     [''flake8'', ''/tmp/proj'', ''--extend-ignore=E722,B001,B028'', ''--select=E,W,F,C90'',
      ''--max-complexity=10'', ''--exclude'', ''tests,build'']"
    by (simp add: flake8_command_def str_strip_def isspace_def)
  let ?cl = "Supplied ''/tmp/proj'' rf (Some ''tests,build'') (Some ''flake8'')"
  let ?args = "\<lparr>path = ''/tmp/proj'', report_file = rf, exclude = ''tests,build'',
                 tool = ''flake8''\<rparr>"
  have p: "parse_args ?cl = Inr ?args"
    by (simp add: parse_args_def tool_choices_def)
  have t: "tool ?args \<in> set tool_choices" using p by (rule parse_args_tool)
  obtain r w' where c: "choose_tool (const_env True res wr) ?args world0 = Some (r, w')"
    and s: "spawned w' = spawned world0 @ [command_for (tool ?args) (path ?args) (exclude ?args)]"
    using choose_tool_some [OF t, of "const_env True res wr" world0] by blast
  have e: "path_exists (const_env True res wr) (path ?args)" by (simp add: const_env_def)
  have m: "main (const_env True res wr) ?cl = output_results (const_env True res wr) ?args r w'"
    using p e c by (rule main_run)
  have "spawned (fst (output_results (const_env True res wr) ?args r w')) = spawned w'"
    by (simp add: output_results_def Let_def split: option.splits)
  then have "spawned (fst (main (const_env True res wr) ?cl))
               = [flake8_command ''/tmp/proj'' ''tests,build'']"
    using m s by (simp add: command_for_simps)
  then show ?thesis by (simp add: cmd)
qed


text \<open>
  Claim C5: when the target path does not exist, the run ends with exit status 1, no
  subprocess is invoked, nothing is opened or printed, and the only log record is the
  error about the path.
\<close>

theorem missing_path_exits_1:
  assumes "parse_args cl = Inr args" and "\<not> path_exists ev (path args)"
  shows "snd (main ev cl) = 1 \<and> spawned (fst (main ev cl)) = []
         \<and> opened (fst (main ev cl)) = [] \<and> printed (fst (main ev cl)) = []
         \<and> logged (fst (main ev cl)) =
             [(ERROR, ''Error: Path '' @ [CHR 0x27] @ path args @ [CHR 0x27]
                      @ '' does not exist.'')]"
  by (simp add: main_no_path [OF assms])

text \<open>Claim C5 at a path that does not exist, with the tool pylint.\<close>

theorem missing_path_exits_1_witness:
  "parse_args (Supplied ''/no/such'' None None (Some ''pylint''))
     = Inr \<lparr>path = ''/no/such'', report_file = None, exclude = [], tool = ''pylint''\<rparr>
   \<and> \<not> path_exists (const_env False (Inr ''out'') None) ''/no/such''
   \<and> snd (main (const_env False (Inr ''out'') None)
              (Supplied ''/no/such'' None None (Some ''pylint''))) = 1
   \<and> spawned (fst (main (const_env False (Inr ''out'') None)
                       (Supplied ''/no/such'' None None (Some ''pylint'')))) = []"
proof -
  have 1: "parse_args (Supplied ''/no/such'' None None (Some ''pylint''))
     = Inr \<lparr>path = ''/no/such'', report_file = None, exclude = [], tool = ''pylint''\<rparr>"
    by (simp add: parse_args_def tool_choices_def)
  have 2: "\<not> path_exists (const_env False (Inr ''out'') None)
               (path \<lparr>path = ''/no/such'', report_file = None, exclude = [], tool = ''pylint''\<rparr>)"
    by (simp add: const_env_def)
  show ?thesis using missing_path_exits_1 [OF 1 2] 1 2 by simp
qed

text \<open>
  Claim C6, as stated, at a concrete input: without \<open>--report_file\<close>, a bandit run whose
  result is the string \<open>ok\<close> writes \<open>ok\<close> and a newline to standard output, which is not
  the same exact string.
\<close>

theorem stdout_gets_newline_counterexample:
  "fst (analyze_with_bandit (const_env True (Inr ''ok'') None) ''/tmp/proj'' [] world0) = ''ok''
   \<and> printed (fst (main (const_env True (Inr ''ok'') None)
                      (Supplied ''/tmp/proj'' None None None))) = ''ok'' @ [CHR 0x0A]
   \<and> printed (fst (main (const_env True (Inr ''ok'') None)
                      (Supplied ''/tmp/proj'' None None None))) \<noteq> ''ok''"
  by (simp add: const_env_def main_def parse_args_def check_path_def choose_tool_def
        analyze_with_bandit_def output_results_def truthy_def Let_def)

text \<open>
  Claim C6, amended: for every result string, when a non-empty \<open>--report_file\<close> is given
  and writing it succeeds, the content of the file is exactly that string, nothing is
  printed and the exit status is 0; when \<open>--report_file\<close> is omitted, the string followed
  by one newline is written to standard output and no file is opened or written. When the
  arguments parse and the path exists, \<open>main\<close> ends with this output of the result of the
  chosen adapter, which itself prints and writes nothing.
\<close>

theorem report_routing:
  "(report_file args = Some f \<and> f \<noteq> [] \<and> write_file ev f r = None \<longrightarrow>
      file_content (fst (output_results ev args r w)) f = Some r
      \<and> printed (fst (output_results ev args r w)) = printed w
      \<and> snd (output_results ev args r w) = 0)
   \<and> (report_file args = None \<longrightarrow>
      printed (fst (output_results ev args r w)) = printed w @ r @ [CHR 0x0A]
      \<and> written (fst (output_results ev args r w)) = written w
      \<and> opened (fst (output_results ev args r w)) = opened w
      \<and> snd (output_results ev args r w) = 0)
   \<and> (parse_args cl = Inr args \<and> path_exists ev (path args) \<longrightarrow>
      (\<exists>r' w'. choose_tool ev args world0 = Some (r', w')
         \<and> printed w' = [] \<and> written w' = []
         \<and> main ev cl = output_results ev args r' w'))"
proof -
  have a: "file_content (fst (output_results ev args r w)) f = Some r
      \<and> printed (fst (output_results ev args r w)) = printed w
      \<and> snd (output_results ev args r w) = 0"
    if "report_file args = Some f" "f \<noteq> []" "write_file ev f r = None"
    using output_results_file [OF that, of w]
    by (simp add: file_content_def)
  have b: "printed (fst (output_results ev args r w)) = printed w @ r @ [CHR 0x0A]
      \<and> written (fst (output_results ev args r w)) = written w
      \<and> opened (fst (output_results ev args r w)) = opened w
      \<and> snd (output_results ev args r w) = 0"
    if "report_file args = None"
  proof -
    have "\<not> truthy (report_file args)" using that by (simp add: truthy_def)
    from output_results_stdout [OF this, of ev r w] show ?thesis by simp
  qed
  have c: "\<exists>r' w'. choose_tool ev args world0 = Some (r', w')
         \<and> printed w' = [] \<and> written w' = []
         \<and> main ev cl = output_results ev args r' w'"
    if "parse_args cl = Inr args" "path_exists ev (path args)"
    using main_some [OF that] by blast
  show ?thesis using a b c by blast
qed

text \<open>Claim C6, the amended statement at a run with a report file and at one without.\<close>

theorem report_routing_witness:
  "file_content (fst (output_results (const_env True (Inr ''ok'') None)
       \<lparr>path = ''/tmp/proj'', report_file = Some ''out.txt'', exclude = [], tool = ''bandit''\<rparr>
       ''ok'' world0)) ''out.txt'' = Some ''ok''
   \<and> printed (fst (output_results (const_env True (Inr ''ok'') None)
       \<lparr>path = ''/tmp/proj'', report_file = None, exclude = [], tool = ''bandit''\<rparr>
       ''ok'' world0)) = ''ok'' @ [CHR 0x0A]
   \<and> (\<exists>r' w'. main (const_env True (Inr ''ok'') None) (Supplied ''/tmp/proj'' None None None)
         = output_results (const_env True (Inr ''ok'') None)
             \<lparr>path = ''/tmp/proj'', report_file = None, exclude = [], tool = ''bandit''\<rparr> r' w')"
proof -
  let ?ev = "const_env True (Inr ''ok'') None"
  let ?a1 = "\<lparr>path = ''/tmp/proj'', report_file = Some ''out.txt'', exclude = [],
               tool = ''bandit''\<rparr>"
  let ?a2 = "\<lparr>path = ''/tmp/proj'', report_file = None, exclude = [], tool = ''bandit''\<rparr>"
  have 1: "report_file ?a1 = Some ''out.txt'' \<and> ''out.txt'' \<noteq> []
           \<and> write_file ?ev ''out.txt'' ''ok'' = None"
    by (simp add: const_env_def)
  have 2: "report_file ?a2 = None" by simp
  have 3: "parse_args (Supplied ''/tmp/proj'' None None None) = Inr ?a2
           \<and> path_exists ?ev (path ?a2)"
    by (simp add: parse_args_def const_env_def)
  show ?thesis
    using report_routing [of ?a1 "''out.txt''" ?ev "''ok''" world0 _ ] 1
      report_routing [of ?a2 _ ?ev "''ok''" world0 "Supplied ''/tmp/proj'' None None None"] 2 3
    by simp blast
qed

text \<open>
  Claim C7, as stated, at a concrete input: the \<open>pyre\<close> executable is found but cannot be
  started, so that \<open>subprocess.run\<close> raises \<open>PermissionError\<close>, which is not a
  \<open>FileNotFoundError\<close>. The pyre-check adapter returns the generic \<open>Error running Pyre\<close>
  message, not the message that Pyre is not installed or not in PATH.
\<close>

theorem pyre_cannot_start_counterexample:
  "subprocess_run (const_env True (Inl (OtherException ''[Errno 13] Permission denied'')) None)
      (pyre_command ''/tmp/proj'' [])
     = Inl (OtherException ''[Errno 13] Permission denied'')
   \<and> fst (analyze_with_pyre
            (const_env True (Inl (OtherException ''[Errno 13] Permission denied'')) None)
            ''/tmp/proj'' [] world0)
       = ''Error running Pyre: [Errno 13] Permission denied''
   \<and> fst (analyze_with_pyre
            (const_env True (Inl (OtherException ''[Errno 13] Permission denied'')) None)
            ''/tmp/proj'' [] world0)
       \<noteq> ''Pyre is not installed or not in PATH. Please install Pyre.''"
  by (simp add: const_env_def analyze_with_pyre_def Let_def)

text \<open>
  Claim C7, amended: when the executable is not found (\<open>subprocess.run\<close> raises
  \<open>FileNotFoundError\<close>), the bandit, flake8 and pylint adapters return \<open>Error running\<close>, the
  name of the tool, a colon and the text of the exception; the pyre-check adapter returns
  the message that Pyre is not installed or not in PATH. When the executable cannot be
  started for another reason (any other exception), all four adapters, the pyre-check
  adapter too, return \<open>Error running\<close>, the name of the tool, a colon and the text of the
  exception. In both cases \<open>main\<close> goes on to the output of this text.
\<close>

theorem missing_executable_is_reported:
  "(subprocess_run ev (bandit_command p ex) = Inl (FileNotFoundError m) \<longrightarrow>
      fst (analyze_with_bandit ev p ex w) = ''Error running Bandit: '' @ m)
   \<and> (subprocess_run ev (flake8_command p ex) = Inl (FileNotFoundError m) \<longrightarrow>
      fst (analyze_with_flake8 ev p ex w) = ''Error running Flake8: '' @ m)
   \<and> (subprocess_run ev (pylint_command p ex) = Inl (FileNotFoundError m) \<longrightarrow>
      fst (analyze_with_pylint ev p ex w) = ''Error running Pylint: '' @ m)
   \<and> (subprocess_run ev (pyre_command p ex) = Inl (FileNotFoundError m) \<longrightarrow>
      fst (analyze_with_pyre ev p ex w)
        = ''Pyre is not installed or not in PATH. Please install Pyre.'')
   \<and> (parse_args cl = Inr args \<and> path_exists ev (path args)
       \<and> subprocess_run ev (command_for (tool args) (path args) (exclude args))
           = Inl (FileNotFoundError m) \<longrightarrow>
      (\<exists>w'. main ev cl =
          output_results ev args
            (if tool args = ''pyre-check''
             then ''Pyre is not installed or not in PATH. Please install Pyre.''
             else ''Error running '' @ tool_title (tool args) @ '': '' @ m) w'))
   \<and> (subprocess_run ev (bandit_command p ex) = Inl (OtherException m) \<longrightarrow>
      fst (analyze_with_bandit ev p ex w) = ''Error running Bandit: '' @ m)
   \<and> (subprocess_run ev (flake8_command p ex) = Inl (OtherException m) \<longrightarrow>
      fst (analyze_with_flake8 ev p ex w) = ''Error running Flake8: '' @ m)
   \<and> (subprocess_run ev (pylint_command p ex) = Inl (OtherException m) \<longrightarrow>
      fst (analyze_with_pylint ev p ex w) = ''Error running Pylint: '' @ m)
   \<and> (subprocess_run ev (pyre_command p ex) = Inl (OtherException m) \<longrightarrow>
      fst (analyze_with_pyre ev p ex w) = ''Error running Pyre: '' @ m)
   \<and> (parse_args cl = Inr args \<and> path_exists ev (path args)
       \<and> subprocess_run ev (command_for (tool args) (path args) (exclude args))
           = Inl (OtherException m) \<longrightarrow>
      (\<exists>w'. main ev cl =
          output_results ev args (''Error running '' @ tool_title (tool args) @ '': '' @ m) w'))"
proof -
  have not_found: "\<exists>w'. main ev cl =
          output_results ev args
            (if tool args = ''pyre-check''
             then ''Pyre is not installed or not in PATH. Please install Pyre.''
             else ''Error running '' @ tool_title (tool args) @ '': '' @ m) w'"
    if a: "parse_args cl = Inr args" and b: "path_exists ev (path args)"
      and c: "subprocess_run ev (command_for (tool args) (path args) (exclude args))
                = Inl (FileNotFoundError m)"
  proof -
    obtain w' where w': "choose_tool ev args world0
           = Some (if tool args = ''pyre-check''
                   then ''Pyre is not installed or not in PATH. Please install Pyre.''
                   else ''Error running '' @ tool_title (tool args) @ '': '' @ m, w')"
      using choose_tool_not_found [OF parse_args_tool [OF a] c] by blast
    show ?thesis using main_run [OF a b w'] by blast
  qed
  have other: "\<exists>w'. main ev cl =
          output_results ev args (''Error running '' @ tool_title (tool args) @ '': '' @ m) w'"
    if a: "parse_args cl = Inr args" and b: "path_exists ev (path args)"
      and c: "subprocess_run ev (command_for (tool args) (path args) (exclude args))
                = Inl (OtherException m)"
  proof -
    obtain w' where w': "choose_tool ev args world0
           = Some (''Error running '' @ tool_title (tool args) @ '': '' @ m, w')"
      using choose_tool_other [OF parse_args_tool [OF a] c] by blast
    show ?thesis using main_run [OF a b w'] by blast
  qed
  have 1: "(subprocess_run ev (bandit_command p ex) = Inl (FileNotFoundError m) \<longrightarrow>
      fst (analyze_with_bandit ev p ex w) = ''Error running Bandit: '' @ m)
   \<and> (subprocess_run ev (flake8_command p ex) = Inl (FileNotFoundError m) \<longrightarrow>
      fst (analyze_with_flake8 ev p ex w) = ''Error running Flake8: '' @ m)
   \<and> (subprocess_run ev (pylint_command p ex) = Inl (FileNotFoundError m) \<longrightarrow>
      fst (analyze_with_pylint ev p ex w) = ''Error running Pylint: '' @ m)
   \<and> (subprocess_run ev (pyre_command p ex) = Inl (FileNotFoundError m) \<longrightarrow>
      fst (analyze_with_pyre ev p ex w)
        = ''Pyre is not installed or not in PATH. Please install Pyre.'')"
    using bandit_not_found [of ev p ex m w] flake8_not_found [of ev p ex m w]
      pylint_not_found [of ev p ex m w] pyre_not_found [of ev p ex m w]
    by blast
  have 2: "(subprocess_run ev (bandit_command p ex) = Inl (OtherException m) \<longrightarrow>
      fst (analyze_with_bandit ev p ex w) = ''Error running Bandit: '' @ m)
   \<and> (subprocess_run ev (flake8_command p ex) = Inl (OtherException m) \<longrightarrow>
      fst (analyze_with_flake8 ev p ex w) = ''Error running Flake8: '' @ m)
   \<and> (subprocess_run ev (pylint_command p ex) = Inl (OtherException m) \<longrightarrow>
      fst (analyze_with_pylint ev p ex w) = ''Error running Pylint: '' @ m)
   \<and> (subprocess_run ev (pyre_command p ex) = Inl (OtherException m) \<longrightarrow>
      fst (analyze_with_pyre ev p ex w) = ''Error running Pyre: '' @ m)"
    using bandit_other [of ev p ex m w] flake8_other [of ev p ex m w]
      pylint_other [of ev p ex m w] pyre_other [of ev p ex m w]
    by blast
  show ?thesis using 1 2 not_found other by blast
qed

text \<open>
  Claim C7, the amended statement in an environment where no executable is found and in
  one where no executable can be started.
\<close>

theorem missing_executable_is_reported_witness:
  "subprocess_run (const_env True (Inl (FileNotFoundError ''No such file'')) None)
      (bandit_command ''/tmp/proj'' []) = Inl (FileNotFoundError ''No such file'')
   \<and> fst (analyze_with_bandit (const_env True (Inl (FileNotFoundError ''No such file'')) None)
            ''/tmp/proj'' [] world0) = ''Error running Bandit: No such file''
   \<and> fst (analyze_with_flake8 (const_env True (Inl (FileNotFoundError ''No such file'')) None)
            ''/tmp/proj'' [] world0) = ''Error running Flake8: No such file''
   \<and> fst (analyze_with_pylint (const_env True (Inl (FileNotFoundError ''No such file'')) None)
            ''/tmp/proj'' [] world0) = ''Error running Pylint: No such file''
   \<and> fst (analyze_with_pyre (const_env True (Inl (FileNotFoundError ''No such file'')) None)
            ''/tmp/proj'' [] world0)
       = ''Pyre is not installed or not in PATH. Please install Pyre.''
   \<and> (\<exists>w'. main (const_env True (Inl (FileNotFoundError ''No such file'')) None)
              (Supplied ''/tmp/proj'' None None (Some ''pyre-check''))
        = output_results (const_env True (Inl (FileNotFoundError ''No such file'')) None)
            \<lparr>path = ''/tmp/proj'', report_file = None, exclude = [], tool = ''pyre-check''\<rparr>
            ''Pyre is not installed or not in PATH. Please install Pyre.'' w')
   \<and> subprocess_run (const_env True (Inl (OtherException ''Permission denied'')) None)
      (pyre_command ''/tmp/proj'' []) = Inl (OtherException ''Permission denied'')
   \<and> fst (analyze_with_bandit (const_env True (Inl (OtherException ''Permission denied'')) None)
            ''/tmp/proj'' [] world0) = ''Error running Bandit: Permission denied''
   \<and> fst (analyze_with_flake8 (const_env True (Inl (OtherException ''Permission denied'')) None)
            ''/tmp/proj'' [] world0) = ''Error running Flake8: Permission denied''
   \<and> fst (analyze_with_pylint (const_env True (Inl (OtherException ''Permission denied'')) None)
            ''/tmp/proj'' [] world0) = ''Error running Pylint: Permission denied''
   \<and> fst (analyze_with_pyre (const_env True (Inl (OtherException ''Permission denied'')) None)
            ''/tmp/proj'' [] world0) = ''Error running Pyre: Permission denied''
   \<and> (\<exists>w'. main (const_env True (Inl (OtherException ''Permission denied'')) None)
              (Supplied ''/tmp/proj'' None None (Some ''pyre-check''))
        = output_results (const_env True (Inl (OtherException ''Permission denied'')) None)
            \<lparr>path = ''/tmp/proj'', report_file = None, exclude = [], tool = ''pyre-check''\<rparr>
            ''Error running Pyre: Permission denied'' w')"
proof -
  let ?ev = "const_env True (Inl (FileNotFoundError ''No such file'')) None"
  let ?ev' = "const_env True (Inl (OtherException ''Permission denied'')) None"
  let ?a = "\<lparr>path = ''/tmp/proj'', report_file = None, exclude = [], tool = ''pyre-check''\<rparr>"
  have 1: "subprocess_run ?ev c = Inl (FileNotFoundError ''No such file'')" for c
    by (simp add: const_env_def)
  have 2: "parse_args (Supplied ''/tmp/proj'' None None (Some ''pyre-check'')) = Inr ?a
           \<and> path_exists ?ev (path ?a) \<and> path_exists ?ev' (path ?a)"
    by (simp add: parse_args_def tool_choices_def const_env_def)
  have 3: "subprocess_run ?ev' c = Inl (OtherException ''Permission denied'')" for c
    by (simp add: const_env_def)
  have 4: "tool_title ''pyre-check'' = ''Pyre''" by (simp add: tool_title_simps)
  have a: "fst (analyze_with_bandit ?ev ''/tmp/proj'' [] world0) = ''Error running Bandit: No such file''
   \<and> fst (analyze_with_flake8 ?ev ''/tmp/proj'' [] world0) = ''Error running Flake8: No such file''
   \<and> fst (analyze_with_pylint ?ev ''/tmp/proj'' [] world0) = ''Error running Pylint: No such file''
   \<and> fst (analyze_with_pyre ?ev ''/tmp/proj'' [] world0)
       = ''Pyre is not installed or not in PATH. Please install Pyre.''
   \<and> (\<exists>w'. main ?ev (Supplied ''/tmp/proj'' None None (Some ''pyre-check''))
        = output_results ?ev ?a
            ''Pyre is not installed or not in PATH. Please install Pyre.'' w')"
    using missing_executable_is_reported
      [of ?ev "''/tmp/proj''" "[]" "''No such file''" world0
          "Supplied ''/tmp/proj'' None None (Some ''pyre-check'')" ?a] 1 2
    by simp
  have b: "fst (analyze_with_bandit ?ev' ''/tmp/proj'' [] world0) = ''Error running Bandit: Permission denied''
   \<and> fst (analyze_with_flake8 ?ev' ''/tmp/proj'' [] world0) = ''Error running Flake8: Permission denied''
   \<and> fst (analyze_with_pylint ?ev' ''/tmp/proj'' [] world0) = ''Error running Pylint: Permission denied''
   \<and> fst (analyze_with_pyre ?ev' ''/tmp/proj'' [] world0) = ''Error running Pyre: Permission denied''
   \<and> (\<exists>w'. main ?ev' (Supplied ''/tmp/proj'' None None (Some ''pyre-check''))
        = output_results ?ev' ?a ''Error running Pyre: Permission denied'' w')"
    using missing_executable_is_reported
      [of ?ev' "''/tmp/proj''" "[]" "''Permission denied''" world0
          "Supplied ''/tmp/proj'' None None (Some ''pyre-check'')" ?a] 2 3
    by (simp add: 4)
  show ?thesis using a b 1 3 by simp
qed

text \<open>
  Claim C8: in every configuration that \<open>parse_args\<close> produces, the tool selector is one
  of the four choices and equals exactly one of them, so the choice of the adapter never
  reaches its final \<open>else\<close> branch: \<open>main\<close> never logs \<open>Invalid tool specified\<close>, and when the
  path exists it runs exactly the one command of the selected adapter.
\<close>

theorem tool_selector_always_valid:
  assumes "parse_args cl = Inr args"
  shows "tool args \<in> set tool_choices
         \<and> length (filter (\<lambda>t. tool args = t) tool_choices) = 1
         \<and> choose_tool ev args w \<noteq> None
         \<and> (ERROR, ''Invalid tool specified: '' @ tool args) \<notin> set (logged (fst (main ev cl)))
         \<and> (path_exists ev (path args) \<longrightarrow>
              spawned (fst (main ev cl)) = [command_for (tool args) (path args) (exclude args)])"
proof -
  have t: "tool args \<in> set tool_choices" using assms by (rule parse_args_tool)
  have one: "length (filter (\<lambda>t. tool args = t) tool_choices) = 1"
    using tool_cases [OF t] by (auto simp: tool_choices_def)
  have some: "choose_tool ev args w \<noteq> None"
    using choose_tool_some [OF t, of ev w] by auto
  have nolog: "(ERROR, ''Invalid tool specified: '' @ tool args) \<notin> set (logged (fst (main ev cl)))"
  proof (cases "path_exists ev (path args)")
    case False
    show ?thesis by (simp add: main_no_path [OF assms False])
  next
    case True
    obtain r w' where c: "choose_tool ev args world0 = Some (r, w')"
      and m: "main ev cl = output_results ev args r w'"
      using main_some [OF assms True] by blast
    show ?thesis
    proof
      assume "(ERROR, ''Invalid tool specified: '' @ tool args) \<in> set (logged (fst (main ev cl)))"
      then have "(ERROR, ''Invalid tool specified: '' @ tool args) \<in> set (logged w')"
        unfolding m by (rule output_results_log)
      then have "(ERROR, ''Invalid tool specified: '' @ tool args) \<in> set (logged world0)"
        using c choose_tool_log by blast
      then show False by simp
    qed
  qed
  have sp: "spawned (fst (main ev cl)) = [command_for (tool args) (path args) (exclude args)]"
    if pe: "path_exists ev (path args)"
  proof -
    obtain r w' where "spawned w' = [command_for (tool args) (path args) (exclude args)]"
      and "main ev cl = output_results ev args r w'"
      using main_some [OF assms pe] by blast
    then show ?thesis by (simp add: output_results_spawned)
  qed
  show ?thesis using t one some nolog sp by blast
qed

text \<open>Claim C8 at the tool pylint; a tool outside the choices is a usage error.\<close>

theorem tool_selector_always_valid_witness:
  "parse_args (Supplied ''/tmp/proj'' None None (Some ''pylint''))
     = Inr \<lparr>path = ''/tmp/proj'', report_file = None, exclude = [], tool = ''pylint''\<rparr>
   \<and> parse_args (Supplied ''/tmp/proj'' None None (Some ''mypy'')) = Inl 2
   \<and> choose_tool (const_env True (Inr ''ok'') None)
        \<lparr>path = ''/tmp/proj'', report_file = None, exclude = [], tool = ''pylint''\<rparr> world0
       \<noteq> None
   \<and> spawned (fst (main (const_env True (Inr ''ok'') None)
                       (Supplied ''/tmp/proj'' None None (Some ''pylint''))))
       = [[''pylint'', ''/tmp/proj'', ''--disable=C0301,W0703,W0702,broad-except'']]"
proof -
  let ?a = "\<lparr>path = ''/tmp/proj'', report_file = None, exclude = [], tool = ''pylint''\<rparr>"
  have 1: "parse_args (Supplied ''/tmp/proj'' None None (Some ''pylint'')) = Inr ?a"
    by (simp add: parse_args_def tool_choices_def)
  have 2: "parse_args (Supplied ''/tmp/proj'' None None (Some ''mypy'')) = Inl 2"
    by (simp add: parse_args_def tool_choices_def)
  have 3: "path_exists (const_env True (Inr ''ok'') None) (path ?a)"
    by (simp add: const_env_def)
  have 4: "command_for (tool ?a) (path ?a) (exclude ?a)
             = [''pylint'', ''/tmp/proj'', ''--disable=C0301,W0703,W0702,broad-except'']"
    by (simp add: command_for_simps pylint_command_def str_strip_def)
  show ?thesis
    using tool_selector_always_valid [OF 1, of "const_env True (Inr ''ok'') None" world0] 2 3
    by (simp only: 1 4) simp
qed

text \<open>
  Claim C9: a run with \<open>--report_file\<close> given as the empty string is the same run as one
  without \<open>--report_file\<close>: no file is opened or written, and when the arguments parse and
  the path exists the result and a newline go to standard output and the exit status is 0.
\<close>

theorem empty_report_file_is_absent:
  "main ev (Supplied p (Some []) ex tv) = main ev (Supplied p None ex tv)
   \<and> opened (fst (main ev (Supplied p (Some []) ex tv))) = []
   \<and> written (fst (main ev (Supplied p (Some []) ex tv))) = []
   \<and> (parse_args (Supplied p (Some []) ex tv) = Inr args \<and> path_exists ev p \<longrightarrow>
        snd (main ev (Supplied p (Some []) ex tv)) = 0
        \<and> (\<exists>r w'. choose_tool ev args world0 = Some (r, w')
              \<and> printed (fst (main ev (Supplied p (Some []) ex tv))) = r @ [CHR 0x0A]))"
proof -
  let ?cl = "Supplied p (Some []) ex tv"
  let ?cl' = "Supplied p None ex tv"
  have run: "\<exists>r w'. choose_tool ev a world0 = Some (r, w') \<and> opened w' = [] \<and> written w' = []
               \<and> printed w' = []
               \<and> main ev ?cl = (print r w', 0) \<and> main ev ?cl' = (print r w', 0)"
    if a: "parse_args ?cl = Inr a" and e: "path_exists ev p" for a
  proof -
    have a': "parse_args ?cl' = Inr (a\<lparr>report_file := None\<rparr>)"
      and rf: "report_file a = Some []" and pa: "path a = p"
      using parse_args_report_file [OF a, of None] by simp_all
    have e1: "path_exists ev (path a)" using e pa by simp
    have e2: "path_exists ev (path (a\<lparr>report_file := None\<rparr>))" using e pa by simp
    obtain r w' where c: "choose_tool ev a world0 = Some (r, w')"
      and o: "opened w' = []" "written w' = []" "printed w' = []"
      and m: "main ev ?cl = output_results ev a r w'"
      using main_some [OF a e1] by blast
    have c': "choose_tool ev (a\<lparr>report_file := None\<rparr>) world0 = Some (r, w')"
      using c by (simp add: choose_tool_report_file)
    have m': "main ev ?cl' = output_results ev (a\<lparr>report_file := None\<rparr>) r w'"
      using a' e2 c' by (rule main_run)
    have "output_results ev a r w' = (print r w', 0)"
      using rf by (simp add: output_results_stdout truthy_def)
    moreover have "output_results ev (a\<lparr>report_file := None\<rparr>) r w' = (print r w', 0)"
      by (simp add: output_results_stdout truthy_def)
    ultimately show ?thesis using c o m m' by auto
  qed
  have eq: "main ev ?cl = main ev ?cl'" and op: "opened (fst (main ev ?cl)) = []"
    and wr: "written (fst (main ev ?cl)) = []"
  proof -
    show "main ev ?cl = main ev ?cl'"
    proof (cases "parse_args ?cl")
      case (Inl status)
      then show ?thesis
        using parse_args_report_file_usage [OF Inl, of None] by (simp add: main_usage)
    next
      case (Inr a)
      note a = parse_args_report_file [OF Inr, of None]
      show ?thesis
      proof (cases "path_exists ev p")
        case True
        then show ?thesis using run [OF Inr True] by auto
      next
        case False
        have "main ev ?cl = (log ERROR (''Error: Path '' @ [CHR 0x27] @ path a @ [CHR 0x27]
                       @ '' does not exist.'') world0, 1)"
          using Inr False a by (intro main_no_path) simp_all
        moreover have "main ev ?cl' = (log ERROR (''Error: Path '' @ [CHR 0x27]
                       @ path (a\<lparr>report_file := None\<rparr>) @ [CHR 0x27]
                       @ '' does not exist.'') world0, 1)"
          using False a by (intro main_no_path) simp_all
        ultimately show ?thesis by simp
      qed
    qed
    show "opened (fst (main ev ?cl)) = []"
    proof (cases "parse_args ?cl")
      case (Inl status)
      then show ?thesis by (simp add: main_usage)
    next
      case (Inr a)
      note a = parse_args_report_file [OF Inr, of None]
      show ?thesis
      proof (cases "path_exists ev p")
        case True
        then show ?thesis using run [OF Inr True] by auto
      next
        case False
        have "\<not> path_exists ev (path a)" using False a by simp
        from main_no_path [OF Inr this] show ?thesis by simp
      qed
    qed
    show "written (fst (main ev ?cl)) = []"
    proof (cases "parse_args ?cl")
      case (Inl status)
      then show ?thesis by (simp add: main_usage)
    next
      case (Inr a)
      note a = parse_args_report_file [OF Inr, of None]
      show ?thesis
      proof (cases "path_exists ev p")
        case True
        then show ?thesis using run [OF Inr True] by auto
      next
        case False
        have "\<not> path_exists ev (path a)" using False a by simp
        from main_no_path [OF Inr this] show ?thesis by simp
      qed
    qed
  qed
  have ok: "snd (main ev ?cl) = 0
        \<and> (\<exists>r w'. choose_tool ev args world0 = Some (r, w')
              \<and> printed (fst (main ev ?cl)) = r @ [CHR 0x0A])"
    if "parse_args ?cl = Inr args" "path_exists ev p"
    using run [OF that] by auto
  show ?thesis using eq op wr ok by blast
qed

text \<open>
  Claim C9 in an environment where every write to a file fails: the run with the empty
  report file still ends with status 0.
\<close>

theorem empty_report_file_is_absent_witness:
  "parse_args (Supplied ''/tmp/proj'' (Some []) None None)
     = Inr \<lparr>path = ''/tmp/proj'', report_file = Some [], exclude = [], tool = ''bandit''\<rparr>
   \<and> main (const_env True (Inr ''ok'') (Some ''No such file or directory''))
        (Supplied ''/tmp/proj'' (Some []) None None)
       = main (const_env True (Inr ''ok'') (Some ''No such file or directory''))
           (Supplied ''/tmp/proj'' None None None)
   \<and> snd (main (const_env True (Inr ''ok'') (Some ''No such file or directory''))
              (Supplied ''/tmp/proj'' (Some []) None None)) = 0
   \<and> opened (fst (main (const_env True (Inr ''ok'') (Some ''No such file or directory''))
                      (Supplied ''/tmp/proj'' (Some []) None None))) = []"
proof -
  let ?a = "\<lparr>path = ''/tmp/proj'', report_file = Some [], exclude = [], tool = ''bandit''\<rparr>"
  have 1: "parse_args (Supplied ''/tmp/proj'' (Some []) None None) = Inr ?a"
    by (simp add: parse_args_def)
  have 2: "path_exists (const_env True (Inr ''ok'') (Some ''No such file or directory''))
             ''/tmp/proj''"
    by (simp add: const_env_def)
  show ?thesis
    using empty_report_file_is_absent
      [of "const_env True (Inr ''ok'') (Some ''No such file or directory'')"
          "''/tmp/proj''" None None ?a] 1 2
    by blast
qed

text \<open>
  Claim C10: the normalised entries are a subsequence of the trimmed pieces of the exclude
  string, which joined by commas are the exclude string itself; the bandit flags, the
  flake8 \<open>--exclude\<close> value and the pylint \<open>--ignore\<close> value list the entries in this order.
  When no piece is empty or has whitespace at either end, the flake8 and pylint values
  are the exclude string unchanged.
\<close>

theorem exclude_order_and_round_trip:
  "subseq (exclude_entries ex) (map str_strip (str_split CHR '','' ex))
   \<and> str_join '','' (str_split CHR '','' ex) = ex
   \<and> drop 5 (bandit_command p ex) = map (\<lambda>e. ''--exclude='' @ e) (exclude_entries ex)
   \<and> (exclude_entries ex \<noteq> [] \<longrightarrow>
        drop 5 (flake8_command p ex) = [''--exclude'', str_join '','' (exclude_entries ex)]
        \<and> drop 3 (pylint_command p ex) = [''--ignore'', str_join '','' (exclude_entries ex)])
   \<and> ((\<forall>e \<in> set (str_split CHR '','' ex).
          e \<noteq> [] \<and> \<not> isspace (hd e) \<and> \<not> isspace (last e)) \<longrightarrow>
        exclude_entries ex = str_split CHR '','' ex
        \<and> drop 5 (flake8_command p ex) = [''--exclude'', ex]
        \<and> drop 3 (pylint_command p ex) = [''--ignore'', ex])"
proof -
  have 1: "subseq (exclude_entries ex) (map str_strip (str_split CHR '','' ex))"
    by (rule exclude_entries_subseq)
  have 2: "str_join '','' (str_split CHR '','' ex) = ex"
    by (rule str_join_split)
  have 3: "drop 5 (bandit_command p ex) = map (\<lambda>e. ''--exclude='' @ e) (exclude_entries ex)"
    by (simp add: bandit_command_entries)
  have 4: "drop 5 (flake8_command p ex) = [''--exclude'', str_join '','' (exclude_entries ex)]
        \<and> drop 3 (pylint_command p ex) = [''--ignore'', str_join '','' (exclude_entries ex)]"
    if "exclude_entries ex \<noteq> []"
    using that by (simp add: flake8_command_entries pylint_command_entries)
  have 5: "exclude_entries ex = str_split CHR '','' ex
        \<and> drop 5 (flake8_command p ex) = [''--exclude'', ex]
        \<and> drop 3 (pylint_command p ex) = [''--ignore'', ex]"
    if a: "\<forall>e \<in> set (str_split CHR '','' ex). e \<noteq> [] \<and> \<not> isspace (hd e) \<and> \<not> isspace (last e)"
  proof -
    have e: "exclude_entries ex = str_split CHR '','' ex"
      using a by (rule exclude_entries_clean)
    then have n: "exclude_entries ex \<noteq> []" by (simp add: str_split_not_Nil)
    show ?thesis using 4 [OF n] by (simp add: e 2)
  qed
  show ?thesis using 1 2 3 4 5 by blast
qed

text \<open>Claim C10 at the exclude string \<open>tests,build\<close>.\<close>

theorem exclude_order_and_round_trip_witness:
  "str_split CHR '','' ''tests,build'' = [''tests'', ''build'']
   \<and> exclude_entries ''tests,build'' = [''tests'', ''build'']
   \<and> drop 5 (bandit_command ''/tmp/proj'' ''tests,build'') = [''--exclude=tests'', ''--exclude=build'']
   \<and> drop 5 (flake8_command ''/tmp/proj'' ''tests,build'') = [''--exclude'', ''tests,build'']
   \<and> drop 3 (pylint_command ''/tmp/proj'' ''tests,build'') = [''--ignore'', ''tests,build'']"
proof -
  have 1: "str_split CHR '','' ''tests,build'' = [''tests'', ''build'']" by simp
  have 2: "\<forall>e \<in> set (str_split CHR '','' ''tests,build'').
             e \<noteq> [] \<and> \<not> isspace (hd e) \<and> \<not> isspace (last e)"
    by (simp add: 1 isspace_def)
  show ?thesis
    using exclude_order_and_round_trip [of "''tests,build''" "''/tmp/proj''"] 2
    by (simp add: 1)
qed

end
